theory Spec2Isabelle
  imports Main "HOL-Library.Word"
begin

section \<open>Application settings (app/config.py)\<close>

text \<open>
  \<^verbatim>\<open>class Settings(BaseSettings)\<close> has three fields with defaults. Python's \<^verbatim>\<open>int\<close> is
  unbounded, so \<open>max_image_size\<close> is an \<open>int\<close>.
\<close>

record Settings =
  debug :: bool
  max_image_size :: int
  allowed_image_types :: "string list"

text \<open>The values \<^verbatim>\<open>Settings()\<close> has when the environment overrides nothing.\<close>

definition Settings_default :: Settings where
  "Settings_default =
     \<lparr>debug = False,
      max_image_size = 10 * 1024 * 1024,
      allowed_image_types = [''image/jpeg'', ''image/png'', ''image/webp'']\<rparr>"

text \<open>
  \<^verbatim>\<open>get_settings\<close> reads and writes the module-level variable \<^verbatim>\<open>_settings\<close>, which is the
  state passed explicitly here (\<open>None\<close> is Python's \<^verbatim>\<open>None\<close>). The call \<^verbatim>\<open>Settings()\<close> reads
  the process environment and the file \<^verbatim>\<open>.env\<close> through the pydantic library and may raise a
  validation error; its outcome at the moment of the call is the argument \<open>construct\<close>, which
  is only looked at when \<^verbatim>\<open>_settings\<close> is \<^verbatim>\<open>None\<close>. An exception leaves \<^verbatim>\<open>_settings\<close> unassigned.
\<close>

definition get_settings ::
  "('e + Settings) \<Rightarrow> Settings option \<Rightarrow> ('e + Settings) \<times> Settings option" where
  "get_settings construct st =
     (case st of
        None \<Rightarrow>
          (case construct of
             Inl e \<Rightarrow> (Inl e, None)
           | Inr s \<Rightarrow> (Inr s, Some s))
      | Some s \<Rightarrow> (Inr s, Some s))"


section \<open>The upload handler (app/routes/color_analysis.py)\<close>

subsection \<open>Data\<close>

type_synonym byte = "8 word"

text \<open>
  The part of FastAPI's \<^verbatim>\<open>UploadFile\<close> the handler uses: \<^verbatim>\<open>filename\<close> and \<^verbatim>\<open>content_type\<close>
  (both may be \<^verbatim>\<open>None\<close>) and the bytes that \<^verbatim>\<open>await file.read()\<close> returns.
\<close>

record UploadFile =
  filename :: "string option"
  content_type :: "string option"
  body :: "byte list"

text \<open>
  The \<^verbatim>\<open>detail\<close> of an \<^verbatim>\<open>HTTPException\<close> is an f-string in the source. Each constructor stands
  for one of the three templates together with the values formatted into it:
  \<^item> \<open>Invalid_file_type ts\<close>: \<^verbatim>\<open>f"Invalid file type. Allowed types: {ts}"\<close>
  \<^item> \<open>File_too_large n\<close>: \<^verbatim>\<open>f"File too large. Maximum size: {n} bytes"\<close>
  \<^item> \<open>Error_processing m\<close>: \<^verbatim>\<open>f"Error processing image: {m}"\<close>
\<close>

datatype detail =
    Invalid_file_type "string list"
  | File_too_large int
  | Error_processing string

text \<open>
  The exceptions (subclasses of \<^verbatim>\<open>Exception\<close>) that can be raised inside the handler:
  the \<^verbatim>\<open>HTTPException\<close> with its status code and detail, the \<^verbatim>\<open>KeyError\<close> of a dictionary
  subscript with the missing key, and whatever the collaborators that are not part of the
  source raise (\<open>'x\<close>).
\<close>

datatype 'x exn =
    HTTPException int detail
  | KeyError string
  | Raised 'x

text \<open>The messages handed to the logger, again one constructor per template.\<close>

datatype 'v log_msg =
    Processing_image_upload "string option"
  | Processing_image_for_analysis
  | Analyzing_skin_tone
  | Generating_color_recommendations
  | Analysis_complete 'v
  | Error_processing_image string

text \<open>What the handler does besides returning: log lines, reading the file, calling the core.\<close>

datatype ('img, 'v) event =
    Log_info "'v log_msg"
  | Log_error "'v log_msg"
  | File_read
  | Call_process_image "byte list"
  | Call_analyze_skin_tone 'img
  | Call_get_color_recommendations "string \<rightharpoonup> 'v"

text \<open>
  The handler's collaborators are imported from modules that are not part of the source
  (\<^verbatim>\<open>core.image_processor\<close>, \<^verbatim>\<open>core.color_analyzer\<close>, \<^verbatim>\<open>models.schemas\<close>) or from libraries
  (\<^verbatim>\<open>str\<close> of an exception object). They are parameters of the model: each is a function that
  returns a value or raises (\<open>Inl\<close>). The two dictionaries the colour analyzer returns are maps
  from key to value; \<open>'img\<close> is the type of the processed image, \<open>'v\<close> the type of dictionary
  values, \<open>'sta\<close> and \<open>'resp\<close> the two pydantic models, whose constructors validate their
  arguments.
\<close>

record ('x, 'img, 'v, 'sta, 'resp) collaborators =
  process_image :: "byte list \<Rightarrow> 'x + 'img"
  color_analyzer_analyze_skin_tone :: "'img \<Rightarrow> 'x + (string \<rightharpoonup> 'v)"
  get_color_recommendations :: "(string \<rightharpoonup> 'v) \<Rightarrow> 'x + (string \<rightharpoonup> 'v)"
  SkinToneAnalysis :: "'v \<Rightarrow> 'v \<Rightarrow> 'v \<Rightarrow> 'v \<Rightarrow> 'x + 'sta"
  ColorRecommendationResponse :: "'sta \<Rightarrow> 'v \<Rightarrow> 'v \<Rightarrow> 'v \<Rightarrow> 'v \<Rightarrow> 'x + 'resp"
  str_exn :: "'x exn \<Rightarrow> string"

subsection \<open>Raising and sequencing\<close>

text \<open>A dictionary subscript \<^verbatim>\<open>d[k]\<close> raises \<^verbatim>\<open>KeyError\<close> when the key is missing.\<close>

definition getitem :: "(string \<rightharpoonup> 'v) \<Rightarrow> string \<Rightarrow> 'x exn + 'v" where
  "getitem d k = (case d k of None \<Rightarrow> Inl (KeyError k) | Some v \<Rightarrow> Inr v)"

text \<open>An exception of a collaborator, as it arrives in the handler.\<close>

definition raised :: "'x + 'a \<Rightarrow> 'x exn + 'a" where
  "raised r = (case r of Inl x \<Rightarrow> Inl (Raised x) | Inr a \<Rightarrow> Inr a)"

text \<open>Evaluate \<open>r\<close>; an exception ends the evaluation, a value is passed on.\<close>

definition and_then :: "'e + 'a \<Rightarrow> ('a \<Rightarrow> 'e + 'b) \<Rightarrow> 'e + 'b" where
  "and_then r k = (case r of Inl e \<Rightarrow> Inl e | Inr a \<Rightarrow> k a)"

subsection \<open>The handler\<close>

text \<open>
  Lines 55 to 66: the keyword arguments are evaluated left to right, the nested
  \<^verbatim>\<open>SkinToneAnalysis(...)\<close> first, so the first missing key or failing constructor decides
  the exception.
\<close>

definition create_response ::
  "('x, 'img, 'v, 'sta, 'resp) collaborators \<Rightarrow> (string \<rightharpoonup> 'v) \<Rightarrow> (string \<rightharpoonup> 'v)
     \<Rightarrow> 'x exn + 'resp" where
  "create_response c skin_tone_data color_recommendations =
     and_then (getitem skin_tone_data ''category'') (\<lambda>category.
     and_then (getitem skin_tone_data ''undertone'') (\<lambda>undertone.
     and_then (getitem skin_tone_data ''dominant_colors'') (\<lambda>dominant_colors.
     and_then (getitem skin_tone_data ''confidence'') (\<lambda>confidence.
     and_then (raised (SkinToneAnalysis c category undertone dominant_colors confidence))
       (\<lambda>skin_tone.
     and_then (getitem color_recommendations ''recommended'') (\<lambda>recommended.
     and_then (getitem color_recommendations ''avoid'') (\<lambda>avoid.
     and_then (getitem color_recommendations ''palettes'') (\<lambda>palettes.
     and_then (getitem color_recommendations ''tips'') (\<lambda>tips.
     raised (ColorRecommendationResponse c skin_tone recommended avoid palettes tips))))))))))"

text \<open>
  Lines 27 to 69, the body of the \<^verbatim>\<open>try\<close>: the events so far and either the exception that
  left the block or the response returned. \<^verbatim>\<open>x not in xs\<close> compares with \<^verbatim>\<open>==\<close>, and \<^verbatim>\<open>None\<close>
  equals no string. \<^verbatim>\<open>await file.read()\<close> is taken to return the whole body; the logger calls
  only add a log line.
\<close>

definition try_body ::
  "('x, 'img, 'v, 'sta, 'resp) collaborators \<Rightarrow> Settings \<Rightarrow> UploadFile
     \<Rightarrow> ('img, 'v) event list \<times> ('x exn + 'resp)" where
  "try_body c settings file =
     (let t0 = [Log_info (Processing_image_upload (filename file))] in
      if content_type file \<notin> set (map Some (allowed_image_types settings))
      then (t0, Inl (HTTPException 400 (Invalid_file_type (allowed_image_types settings))))
      else
        let file_content = body file;
            t1 = t0 @ [File_read]
        in
        if int (length file_content) > max_image_size settings
        then (t1, Inl (HTTPException 400 (File_too_large (max_image_size settings))))
        else
          let t2 = t1 @ [Log_info Processing_image_for_analysis,
                         Call_process_image file_content]
          in
          case process_image c file_content of
            Inl x \<Rightarrow> (t2, Inl (Raised x))
          | Inr processed_image \<Rightarrow>
              let t3 = t2 @ [Log_info Analyzing_skin_tone,
                             Call_analyze_skin_tone processed_image]
              in
              case color_analyzer_analyze_skin_tone c processed_image of
                Inl x \<Rightarrow> (t3, Inl (Raised x))
              | Inr skin_tone_data \<Rightarrow>
                  let t4 = t3 @ [Log_info Generating_color_recommendations,
                                 Call_get_color_recommendations skin_tone_data]
                  in
                  case get_color_recommendations c skin_tone_data of
                    Inl x \<Rightarrow> (t4, Inl (Raised x))
                  | Inr color_recommendations \<Rightarrow>
                      (case create_response c skin_tone_data color_recommendations of
                         Inl e \<Rightarrow> (t4, Inl e)
                       | Inr response \<Rightarrow>
                           (case getitem skin_tone_data ''category'' of
                              Inl e \<Rightarrow> (t4, Inl e)
                            | Inr category \<Rightarrow>
                                (t4 @ [Log_info (Analysis_complete category)],
                                 Inr response))))"

text \<open>
  Lines 26 and 71 to 76: \<^verbatim>\<open>except Exception as e\<close> catches every exception that leaves the
  \<^verbatim>\<open>try\<close> block, the two \<^verbatim>\<open>HTTPException\<close>s raised in the block included (\<^verbatim>\<open>HTTPException\<close> is
  a subclass of \<^verbatim>\<open>Exception\<close>), logs it and raises an \<^verbatim>\<open>HTTPException\<close> with status 500.
  The pair returned is the list of events of the whole call and either the exception the
  handler raises or the response it returns.
\<close>

definition analyze_skin_tone ::
  "('x, 'img, 'v, 'sta, 'resp) collaborators \<Rightarrow> Settings \<Rightarrow> UploadFile
     \<Rightarrow> ('img, 'v) event list \<times> ('x exn + 'resp)" where
  "analyze_skin_tone c settings file =
     (case try_body c settings file of
        (t, Inr response) \<Rightarrow> (t, Inr response)
      | (t, Inl e) \<Rightarrow>
          (t @ [Log_error (Error_processing_image (str_exn c e))],
           Inl (HTTPException 500 (Error_processing (str_exn c e)))))"


section \<open>Sample inputs\<close>

text \<open>
  Concrete collaborators and uploads on which the theorems below are evaluated. The sample
  image processor rejects an empty byte string and otherwise returns the bytes; values are
  strings; the two models are the lists of their arguments.
\<close>

definition sample_skin_tone_data :: "string \<rightharpoonup> string" where
  "sample_skin_tone_data =
     [''category'' \<mapsto> ''light'', ''undertone'' \<mapsto> ''warm'',
      ''dominant_colors'' \<mapsto> ''#ffe0bd'', ''confidence'' \<mapsto> ''0.93'']"

definition sample_recommendations :: "string \<rightharpoonup> string" where
  "sample_recommendations =
     [''recommended'' \<mapsto> ''coral'', ''avoid'' \<mapsto> ''grey'',
      ''palettes'' \<mapsto> ''spring'', ''tips'' \<mapsto> ''wear earth tones'']"

definition sample_collaborators ::
  "(string, byte list, string, string list, string list) collaborators" where
  "sample_collaborators =
     \<lparr>process_image = (\<lambda>b. if b = [] then Inl ''DecodeError'' else Inr b),
      color_analyzer_analyze_skin_tone = (\<lambda>img. Inr sample_skin_tone_data),
      get_color_recommendations = (\<lambda>d. Inr sample_recommendations),
      SkinToneAnalysis = (\<lambda>category undertone dominant_colors confidence.
         Inr [category, undertone, dominant_colors, confidence]),
      ColorRecommendationResponse = (\<lambda>skin_tone recommended avoid palettes tips.
         Inr (skin_tone @ [recommended, avoid, palettes, tips])),
      str_exn = (\<lambda>e. case e of
         HTTPException n d \<Rightarrow>
           (case d of
              Invalid_file_type ts \<Rightarrow> ''Invalid file type''
            | File_too_large m \<Rightarrow> ''File too large''
            | Error_processing m \<Rightarrow> m)
       | KeyError k \<Rightarrow> k
       | Raised x \<Rightarrow> x)\<rparr>"

definition text_upload :: UploadFile where
  "text_upload = \<lparr>filename = Some ''notes.txt'', content_type = Some ''text/plain'', body = [1, 2, 3]\<rparr>"

definition big_text_upload :: UploadFile where
  "big_text_upload =
     \<lparr>filename = Some ''big.txt'', content_type = Some ''text/plain'',
      body = replicate 10485761 0\<rparr>"

definition big_png_upload :: UploadFile where
  "big_png_upload =
     \<lparr>filename = Some ''big.png'', content_type = Some ''image/png'',
      body = replicate 10485761 0\<rparr>"

definition limit_png_upload :: UploadFile where
  "limit_png_upload =
     \<lparr>filename = Some ''limit.png'', content_type = Some ''image/png'',
      body = replicate 10485760 0\<rparr>"

definition empty_png_upload :: UploadFile where
  "empty_png_upload =
     \<lparr>filename = Some ''empty.png'', content_type = Some ''image/png'', body = []\<rparr>"

definition png_upload :: UploadFile where
  "png_upload =
     \<lparr>filename = Some ''face.png'', content_type = Some ''image/png'', body = [137, 80, 78, 71]\<rparr>"

text \<open>
  Collaborators whose recommendation dictionary lacks the key \<^verbatim>\<open>tips\<close>; everything else is
  as in the sample above.
\<close>

definition recommendations_without_tips :: "string \<rightharpoonup> string" where
  "recommendations_without_tips =
     [''recommended'' \<mapsto> ''coral'', ''avoid'' \<mapsto> ''grey'', ''palettes'' \<mapsto> ''spring'']"

definition collaborators_without_tips ::
  "(string, byte list, string, string list, string list) collaborators" where
  "collaborators_without_tips =
     sample_collaborators
       \<lparr>get_color_recommendations := (\<lambda>d. Inr recommendations_without_tips)\<rparr>"


section \<open>The settings singleton\<close>

text \<open>
  Claim C9. \<^verbatim>\<open>get_settings\<close> is a lazily initialised singleton: when the first call (with
  \<^verbatim>\<open>_settings\<close> still \<^verbatim>\<open>None\<close>) returns a settings object, that object is the one \<^verbatim>\<open>Settings()\<close>
  constructed, it is stored, and every later call returns it and leaves the state as it is,
  whatever \<^verbatim>\<open>Settings()\<close> would construct by then.
\<close>

theorem get_settings_singleton:
  assumes "get_settings construct None = (Inr s, st)"
  shows "construct = Inr s \<and> st = Some s \<and> (\<forall>construct'. get_settings construct' st = (Inr s, st))"
  using assms by (auto simp: get_settings_def split: sum.splits)

theorem get_settings_singleton_witness:
  "get_settings (Inr Settings_default :: unit + Settings) None
     = (Inr Settings_default, Some Settings_default)
   \<and> get_settings (Inr (Settings_default\<lparr>debug := True\<rparr>) :: unit + Settings)
       (Some Settings_default)
     = (Inr Settings_default, Some Settings_default)"
proof -
  have first: "get_settings (Inr Settings_default :: unit + Settings) None
     = (Inr Settings_default, Some Settings_default)"
    by (simp add: get_settings_def)
  from get_settings_singleton [OF first] first show ?thesis by blast
qed


section \<open>Facts about the handler\<close>

lemma try_body_invalid_type:
  assumes "content_type f \<notin> set (map Some (allowed_image_types s))"
  shows "try_body c s f =
     ([Log_info (Processing_image_upload (filename f))],
      Inl (HTTPException 400 (Invalid_file_type (allowed_image_types s))))"
  using assms by (simp add: try_body_def)

lemma try_body_too_large:
  assumes "content_type f \<in> set (map Some (allowed_image_types s))"
    and "int (length (body f)) > max_image_size s"
  shows "try_body c s f =
     ([Log_info (Processing_image_upload (filename f)), File_read],
      Inl (HTTPException 400 (File_too_large (max_image_size s))))"
  using assms by (simp add: try_body_def)

lemma getitem_Inr: "getitem d k = Inr v \<longleftrightarrow> d k = Some v"
  by (simp add: getitem_def split: option.splits)

lemma raised_Inr: "raised r = Inr a \<longleftrightarrow> r = Inr a"
  by (simp add: raised_def split: sum.splits)

lemma and_then_Inr: "and_then r k = Inr b \<longleftrightarrow> (\<exists>a. r = Inr a \<and> k a = Inr b)"
  by (cases r) (simp_all add: and_then_def)

text \<open>A response is constructed exactly when all eight keys are present and both models accept.\<close>

lemma create_response_Inr:
  "create_response c d r = Inr response \<longleftrightarrow>
     (\<exists>category undertone dominant_colors confidence skin_tone recommended avoid palettes tips.
        d ''category'' = Some category \<and> d ''undertone'' = Some undertone \<and>
        d ''dominant_colors'' = Some dominant_colors \<and> d ''confidence'' = Some confidence \<and>
        SkinToneAnalysis c category undertone dominant_colors confidence = Inr skin_tone \<and>
        r ''recommended'' = Some recommended \<and> r ''avoid'' = Some avoid \<and>
        r ''palettes'' = Some palettes \<and> r ''tips'' = Some tips \<and>
        ColorRecommendationResponse c skin_tone recommended avoid palettes tips = Inr response)"
  unfolding create_response_def and_then_Inr getitem_Inr raised_Inr by blast

lemma try_body_Inr:
  assumes "try_body c s f = (t, Inr response)"
  shows "content_type f \<in> set (map Some (allowed_image_types s)) \<and>
     int (length (body f)) \<le> max_image_size s \<and>
     (\<exists>img d r category.
        process_image c (body f) = Inr img \<and>
        color_analyzer_analyze_skin_tone c img = Inr d \<and>
        get_color_recommendations c d = Inr r \<and>
        create_response c d r = Inr response \<and>
        d ''category'' = Some category \<and>
        t = [Log_info (Processing_image_upload (filename f)), File_read,
          Log_info Processing_image_for_analysis, Call_process_image (body f),
          Log_info Analyzing_skin_tone, Call_analyze_skin_tone img,
          Log_info Generating_color_recommendations, Call_get_color_recommendations d,
          Log_info (Analysis_complete category)])"
  using assms
  by (auto simp: try_body_def Let_def getitem_def split: if_splits sum.splits option.splits)

lemma analyze_skin_tone_Inr:
  "analyze_skin_tone c s f = (t, Inr response) \<longleftrightarrow> try_body c s f = (t, Inr response)"
  by (auto simp: analyze_skin_tone_def split: prod.splits sum.splits)

text \<open>Whatever leaves the \<^verbatim>\<open>try\<close> block leaves the handler as an \<^verbatim>\<open>HTTPException\<close> with status 500.\<close>

lemma analyze_skin_tone_Inl:
  "analyze_skin_tone c s f = (t, Inl e) \<longleftrightarrow>
     (\<exists>t' e'. try_body c s f = (t', Inl e') \<and>
        t = t' @ [Log_error (Error_processing_image (str_exn c e'))] \<and>
        e = HTTPException 500 (Error_processing (str_exn c e')))"
  by (auto simp: analyze_skin_tone_def split: prod.splits sum.splits)

lemma sample_run:
  "analyze_skin_tone sample_collaborators Settings_default png_upload =
     ([Log_info (Processing_image_upload (Some ''face.png'')), File_read,
       Log_info Processing_image_for_analysis, Call_process_image [137, 80, 78, 71],
       Log_info Analyzing_skin_tone, Call_analyze_skin_tone [137, 80, 78, 71],
       Log_info Generating_color_recommendations,
       Call_get_color_recommendations sample_skin_tone_data,
       Log_info (Analysis_complete ''light'')],
      Inr [''light'', ''warm'', ''#ffe0bd'', ''0.93'', ''coral'', ''grey'', ''spring'',
           ''wear earth tones''])"
  by (simp add: analyze_skin_tone_def try_body_def sample_collaborators_def
        Settings_default_def png_upload_def create_response_def and_then_def getitem_def
        raised_def sample_skin_tone_data_def sample_recommendations_def Let_def)


section \<open>Status codes of failures\<close>

text \<open>
  Claim C1. A failure caused by the client's input should reach the caller with a status of
  the 4xx family and an internal defect with one of the 5xx family, never both with the same
  status. The handler raises \<^verbatim>\<open>HTTPException(status_code=400)\<close> for a wrong content type inside
  its own \<^verbatim>\<open>try\<close> block, and the \<^verbatim>\<open>except Exception\<close> clause catches it: for the upload of a
  \<^verbatim>\<open>text/plain\<close> file, with any collaborators, the exception that reaches the caller has
  status 500, and so has the one for an exception raised inside the image processor.
\<close>

theorem invalid_type_surfaces_with_status_500:
  "snd (analyze_skin_tone c Settings_default text_upload)
     = Inl (HTTPException 500 (Error_processing (str_exn c
         (HTTPException 400
            (Invalid_file_type [''image/jpeg'', ''image/png'', ''image/webp''])))))
   \<and> snd (analyze_skin_tone sample_collaborators Settings_default empty_png_upload)
     = Inl (HTTPException 500 (Error_processing ''DecodeError''))"
  by (simp add: analyze_skin_tone_def try_body_def Settings_default_def text_upload_def
        empty_png_upload_def sample_collaborators_def)


section \<open>The pipeline of a successful request\<close>

text \<open>
  Claim C2. When the handler returns a response, it has called exactly \<^verbatim>\<open>process_image\<close> on
  the bytes read from the upload, then \<^verbatim>\<open>analyze_skin_tone\<close> on the processed image, then
  \<^verbatim>\<open>get_color_recommendations\<close> on the classification, in this order and each once, and the
  response is the \<^verbatim>\<open>ColorRecommendationResponse\<close> built from the classification's category,
  undertone, dominant_colors and confidence (as a \<^verbatim>\<open>SkinToneAnalysis\<close>) and the
  recommendation's recommended, avoid, palettes and tips.
\<close>

theorem analyze_skin_tone_pipeline:
  assumes "analyze_skin_tone c s f = (t, Inr response)"
  shows "\<exists>img d r category undertone dominant_colors confidence skin_tone
            recommended avoid palettes tips.
     process_image c (body f) = Inr img \<and>
     color_analyzer_analyze_skin_tone c img = Inr d \<and>
     get_color_recommendations c d = Inr r \<and>
     d ''category'' = Some category \<and> d ''undertone'' = Some undertone \<and>
     d ''dominant_colors'' = Some dominant_colors \<and> d ''confidence'' = Some confidence \<and>
     SkinToneAnalysis c category undertone dominant_colors confidence = Inr skin_tone \<and>
     r ''recommended'' = Some recommended \<and> r ''avoid'' = Some avoid \<and>
     r ''palettes'' = Some palettes \<and> r ''tips'' = Some tips \<and>
     ColorRecommendationResponse c skin_tone recommended avoid palettes tips = Inr response \<and>
     t = [Log_info (Processing_image_upload (filename f)), File_read,
          Log_info Processing_image_for_analysis, Call_process_image (body f),
          Log_info Analyzing_skin_tone, Call_analyze_skin_tone img,
          Log_info Generating_color_recommendations, Call_get_color_recommendations d,
          Log_info (Analysis_complete category)]"
proof -
  from assms have "try_body c s f = (t, Inr response)"
    by (simp add: analyze_skin_tone_Inr)
  from try_body_Inr [OF this] obtain img d r category where
    steps: "process_image c (body f) = Inr img"
      "color_analyzer_analyze_skin_tone c img = Inr d"
      "get_color_recommendations c d = Inr r"
    and resp: "create_response c d r = Inr response"
    and cat: "d ''category'' = Some category"
    and tr: "t = [Log_info (Processing_image_upload (filename f)), File_read,
          Log_info Processing_image_for_analysis, Call_process_image (body f),
          Log_info Analyzing_skin_tone, Call_analyze_skin_tone img,
          Log_info Generating_color_recommendations, Call_get_color_recommendations d,
          Log_info (Analysis_complete category)]"
    by blast
  from resp cat steps tr show ?thesis
    unfolding create_response_Inr by fastforce
qed

theorem analyze_skin_tone_pipeline_witness:
  "analyze_skin_tone sample_collaborators Settings_default png_upload =
     ([Log_info (Processing_image_upload (Some ''face.png'')), File_read,
       Log_info Processing_image_for_analysis, Call_process_image [137, 80, 78, 71],
       Log_info Analyzing_skin_tone, Call_analyze_skin_tone [137, 80, 78, 71],
       Log_info Generating_color_recommendations,
       Call_get_color_recommendations sample_skin_tone_data,
       Log_info (Analysis_complete ''light'')],
      Inr [''light'', ''warm'', ''#ffe0bd'', ''0.93'', ''coral'', ''grey'', ''spring'',
           ''wear earth tones''])
   \<and> (\<exists>img d r skin_tone.
        process_image sample_collaborators (body png_upload) = Inr img \<and>
        color_analyzer_analyze_skin_tone sample_collaborators img = Inr d \<and>
        get_color_recommendations sample_collaborators d = Inr r \<and>
        SkinToneAnalysis sample_collaborators (the (d ''category'')) (the (d ''undertone''))
          (the (d ''dominant_colors'')) (the (d ''confidence'')) = Inr skin_tone \<and>
        ColorRecommendationResponse sample_collaborators skin_tone (the (r ''recommended''))
          (the (r ''avoid'')) (the (r ''palettes'')) (the (r ''tips''))
          = Inr [''light'', ''warm'', ''#ffe0bd'', ''0.93'', ''coral'', ''grey'', ''spring'',
                 ''wear earth tones''])"
proof -
  from analyze_skin_tone_pipeline [OF sample_run] sample_run show ?thesis
    by fastforce
qed


section \<open>Validation before the core\<close>

text \<open>
  Claim C3. With the allowed types \<^verbatim>\<open>image/jpeg\<close>, \<^verbatim>\<open>image/png\<close>, \<^verbatim>\<open>image/webp\<close>, an upload
  whose content type is none of them (a missing content type included) is rejected: the
  \<^verbatim>\<open>try\<close> block raises the invalid-file-type \<^verbatim>\<open>HTTPException\<close>, which reaches the caller
  through the \<^verbatim>\<open>except\<close> clause, and \<^verbatim>\<open>process_image\<close> is not called on any bytes. So
  \<^verbatim>\<open>process_image\<close> only ever receives the bytes of an upload of an allowed type.
\<close>

theorem invalid_type_rejected_before_process_image:
  assumes "allowed_image_types s = [''image/jpeg'', ''image/png'', ''image/webp'']"
    and "content_type f \<notin> {Some ''image/jpeg'', Some ''image/png'', Some ''image/webp''}"
  shows "snd (try_body c s f)
       = Inl (HTTPException 400
           (Invalid_file_type [''image/jpeg'', ''image/png'', ''image/webp'']))
     \<and> snd (analyze_skin_tone c s f)
       = Inl (HTTPException 500 (Error_processing (str_exn c
           (HTTPException 400
              (Invalid_file_type [''image/jpeg'', ''image/png'', ''image/webp''])))))
     \<and> (\<forall>b. Call_process_image b \<notin> set (fst (analyze_skin_tone c s f)))"
proof -
  from assms have "content_type f \<notin> set (map Some (allowed_image_types s))"
    by simp
  from try_body_invalid_type [OF this, of c] assms(1) show ?thesis
    by (simp add: analyze_skin_tone_def)
qed

theorem invalid_type_rejected_before_process_image_witness:
  "allowed_image_types Settings_default = [''image/jpeg'', ''image/png'', ''image/webp'']
   \<and> content_type text_upload
       \<notin> {Some ''image/jpeg'', Some ''image/png'', Some ''image/webp''}
   \<and> snd (try_body sample_collaborators Settings_default text_upload)
       = Inl (HTTPException 400
           (Invalid_file_type [''image/jpeg'', ''image/png'', ''image/webp'']))
   \<and> snd (analyze_skin_tone sample_collaborators Settings_default text_upload)
       = Inl (HTTPException 500 (Error_processing ''Invalid file type''))
   \<and> (\<forall>b. Call_process_image b
         \<notin> set (fst (analyze_skin_tone sample_collaborators Settings_default text_upload)))"
proof -
  have types: "allowed_image_types Settings_default
      = [''image/jpeg'', ''image/png'', ''image/webp'']"
    by (simp add: Settings_default_def)
  have other: "content_type text_upload
      \<notin> {Some ''image/jpeg'', Some ''image/png'', Some ''image/webp''}"
    by (simp add: text_upload_def)
  have str: "str_exn sample_collaborators (HTTPException 400
      (Invalid_file_type [''image/jpeg'', ''image/png'', ''image/webp'']))
      = ''Invalid file type''"
    by (simp add: sample_collaborators_def)
  from invalid_type_rejected_before_process_image [OF types other, of sample_collaborators]
    types other str
  show ?thesis by simp
qed

text \<open>
  Claim C4, as stated, fails: an upload of a content type that is not allowed is rejected by
  the type check, which comes first, also when its body is larger than the maximum. Here the
  body has 10485761 bytes, one more than the default maximum, and the exception raised is the
  one for the invalid file type.
\<close>

theorem oversize_upload_of_invalid_type_counterexample:
  "max_image_size Settings_default < int (length (body big_text_upload))
   \<and> snd (try_body sample_collaborators Settings_default big_text_upload)
       = Inl (HTTPException 400
           (Invalid_file_type [''image/jpeg'', ''image/png'', ''image/webp'']))
   \<and> snd (try_body sample_collaborators Settings_default big_text_upload)
       \<noteq> Inl (HTTPException 400 (File_too_large (max_image_size Settings_default)))
   \<and> analyze_skin_tone sample_collaborators Settings_default big_text_upload
       = ([Log_info (Processing_image_upload (Some ''big.txt'')),
           Log_error (Error_processing_image ''Invalid file type'')],
          Inl (HTTPException 500 (Error_processing ''Invalid file type'')))"
  by (simp add: analyze_skin_tone_def try_body_def sample_collaborators_def
        Settings_default_def big_text_upload_def)

text \<open>
  Claim C4, amended. For every upload of an allowed content type whose byte length exceeds
  the configured maximum image size, the \<^verbatim>\<open>try\<close> block raises the file-too-large
  \<^verbatim>\<open>HTTPException\<close>, which reaches the caller through the \<^verbatim>\<open>except\<close> clause, and
  \<^verbatim>\<open>process_image\<close> is not called. An upload at or below the limit never raises the
  file-too-large exception, and when its type is allowed its bytes are passed to
  \<^verbatim>\<open>process_image\<close>.
\<close>

theorem size_check_for_allowed_type:
  "(content_type f \<in> set (map Some (allowed_image_types s))
      \<and> max_image_size s < int (length (body f)) \<longrightarrow>
      snd (try_body c s f) = Inl (HTTPException 400 (File_too_large (max_image_size s)))
      \<and> snd (analyze_skin_tone c s f)
          = Inl (HTTPException 500 (Error_processing (str_exn c
              (HTTPException 400 (File_too_large (max_image_size s))))))
      \<and> (\<forall>b. Call_process_image b \<notin> set (fst (analyze_skin_tone c s f))))
   \<and> (int (length (body f)) \<le> max_image_size s \<longrightarrow>
      (\<forall>n m. snd (try_body c s f) \<noteq> Inl (HTTPException n (File_too_large m))))
   \<and> (content_type f \<in> set (map Some (allowed_image_types s))
      \<and> int (length (body f)) \<le> max_image_size s \<longrightarrow>
      Call_process_image (body f) \<in> set (fst (analyze_skin_tone c s f)))"
proof (intro conjI impI)
  assume a: "content_type f \<in> set (map Some (allowed_image_types s))
      \<and> max_image_size s < int (length (body f))"
  then have tb: "try_body c s f =
     ([Log_info (Processing_image_upload (filename f)), File_read],
      Inl (HTTPException 400 (File_too_large (max_image_size s))))"
    by (simp add: try_body_too_large)
  show "snd (try_body c s f) = Inl (HTTPException 400 (File_too_large (max_image_size s)))"
    by (simp add: tb)
  show "snd (analyze_skin_tone c s f)
          = Inl (HTTPException 500 (Error_processing (str_exn c
              (HTTPException 400 (File_too_large (max_image_size s))))))"
    by (simp add: analyze_skin_tone_def tb)
  show "\<forall>b. Call_process_image b \<notin> set (fst (analyze_skin_tone c s f))"
    by (simp add: analyze_skin_tone_def tb)
next
  assume "int (length (body f)) \<le> max_image_size s"
  then show "\<forall>n m. snd (try_body c s f) \<noteq> Inl (HTTPException n (File_too_large m))"
    by (auto simp: try_body_def Let_def getitem_def create_response_def and_then_def raised_def
          split: sum.splits option.splits)
next
  assume "content_type f \<in> set (map Some (allowed_image_types s))
      \<and> int (length (body f)) \<le> max_image_size s"
  then show "Call_process_image (body f) \<in> set (fst (analyze_skin_tone c s f))"
    by (auto simp: analyze_skin_tone_def try_body_def Let_def split: sum.splits prod.splits)
qed

theorem size_check_for_allowed_type_witness:
  "(content_type big_png_upload \<in> set (map Some (allowed_image_types Settings_default))
    \<and> max_image_size Settings_default < int (length (body big_png_upload))
    \<and> snd (try_body sample_collaborators Settings_default big_png_upload)
        = Inl (HTTPException 400 (File_too_large 10485760))
    \<and> snd (analyze_skin_tone sample_collaborators Settings_default big_png_upload)
        = Inl (HTTPException 500 (Error_processing ''File too large''))
    \<and> (\<forall>b. Call_process_image b
          \<notin> set (fst (analyze_skin_tone sample_collaborators Settings_default
                        big_png_upload))))
   \<and> (content_type limit_png_upload \<in> set (map Some (allowed_image_types Settings_default))
    \<and> int (length (body limit_png_upload)) \<le> max_image_size Settings_default
    \<and> snd (try_body sample_collaborators Settings_default limit_png_upload)
        \<noteq> Inl (HTTPException 400 (File_too_large 10485760))
    \<and> Call_process_image (body limit_png_upload)
        \<in> set (fst (analyze_skin_tone sample_collaborators Settings_default
                      limit_png_upload)))"
proof -
  have big: "content_type big_png_upload
        \<in> set (map Some (allowed_image_types Settings_default))
      \<and> max_image_size Settings_default < int (length (body big_png_upload))"
    by (simp add: big_png_upload_def Settings_default_def)
  have lim: "content_type limit_png_upload
        \<in> set (map Some (allowed_image_types Settings_default))
      \<and> int (length (body limit_png_upload)) \<le> max_image_size Settings_default"
    by (simp add: limit_png_upload_def Settings_default_def)
  have m: "max_image_size Settings_default = 10485760"
    by (simp add: Settings_default_def)
  have str: "str_exn sample_collaborators (HTTPException 400 (File_too_large 10485760))
      = ''File too large''"
    by (simp add: sample_collaborators_def)
  from size_check_for_allowed_type [of big_png_upload Settings_default sample_collaborators]
    size_check_for_allowed_type [of limit_png_upload Settings_default sample_collaborators]
    big lim
  show ?thesis
    by (simp add: m str)
qed


section \<open>Complete response or failure\<close>

text \<open>
  Claim C5. For every upload the handler either fails or returns a complete response, never
  a partially populated one. A returned response is the one the response model's constructor
  built from all eight values of this very request: the image processor accepted the body,
  the colour analyzer returned the classification \<open>d\<close> for the processed image and the
  recommendation \<open>r\<close> for \<open>d\<close>, the keys category, undertone, dominant_colors and confidence
  are present in \<open>d\<close> and the keys recommended, avoid, palettes and tips in \<open>r\<close>, and the
  response is \<^verbatim>\<open>ColorRecommendationResponse\<close> applied to the \<^verbatim>\<open>SkinToneAnalysis\<close> of the first
  four values and to the last four. Conversely, when one of the eight keys is missing from
  the dictionary the colour analyzer returned, the handler fails: no response is returned
  with that field left out or filled in.
\<close>

theorem complete_response_or_failure:
  "((\<exists>e. snd (analyze_skin_tone c s f) = Inl e)
    \<or> (\<exists>img d r category undertone dominant_colors confidence skin_tone
           recommended avoid palettes tips response.
         process_image c (body f) = Inr img \<and>
         color_analyzer_analyze_skin_tone c img = Inr d \<and>
         get_color_recommendations c d = Inr r \<and>
         d ''category'' = Some category \<and> d ''undertone'' = Some undertone \<and>
         d ''dominant_colors'' = Some dominant_colors \<and> d ''confidence'' = Some confidence \<and>
         SkinToneAnalysis c category undertone dominant_colors confidence = Inr skin_tone \<and>
         r ''recommended'' = Some recommended \<and> r ''avoid'' = Some avoid \<and>
         r ''palettes'' = Some palettes \<and> r ''tips'' = Some tips \<and>
         ColorRecommendationResponse c skin_tone recommended avoid palettes tips
           = Inr response \<and>
         snd (analyze_skin_tone c s f) = Inr response))
   \<and> (\<forall>img d r k.
         process_image c (body f) = Inr img \<and>
         color_analyzer_analyze_skin_tone c img = Inr d \<and>
         get_color_recommendations c d = Inr r \<and>
         (k \<in> {''category'', ''undertone'', ''dominant_colors'', ''confidence''} \<and> d k = None
          \<or> k \<in> {''recommended'', ''avoid'', ''palettes'', ''tips''} \<and> r k = None)
         \<longrightarrow> (\<exists>e. snd (analyze_skin_tone c s f) = Inl e))"
proof -
  have complete: "\<exists>img d r category undertone dominant_colors confidence skin_tone
           recommended avoid palettes tips.
         process_image c (body f) = Inr img \<and>
         color_analyzer_analyze_skin_tone c img = Inr d \<and>
         get_color_recommendations c d = Inr r \<and>
         d ''category'' = Some category \<and> d ''undertone'' = Some undertone \<and>
         d ''dominant_colors'' = Some dominant_colors \<and> d ''confidence'' = Some confidence \<and>
         SkinToneAnalysis c category undertone dominant_colors confidence = Inr skin_tone \<and>
         r ''recommended'' = Some recommended \<and> r ''avoid'' = Some avoid \<and>
         r ''palettes'' = Some palettes \<and> r ''tips'' = Some tips \<and>
         ColorRecommendationResponse c skin_tone recommended avoid palettes tips
           = Inr response"
    if ret: "snd (analyze_skin_tone c s f) = Inr response" for response
  proof -
    from ret obtain t where "analyze_skin_tone c s f = (t, Inr response)"
      by (cases "analyze_skin_tone c s f") simp
    then have "try_body c s f = (t, Inr response)"
      by (simp add: analyze_skin_tone_Inr)
    from try_body_Inr [OF this] obtain img d r where
      steps: "process_image c (body f) = Inr img"
        "color_analyzer_analyze_skin_tone c img = Inr d"
        "get_color_recommendations c d = Inr r"
      and resp: "create_response c d r = Inr response"
      by blast
    from resp steps show ?thesis
      unfolding create_response_Inr by fastforce
  qed
  have dichotomy: "(\<exists>e. snd (analyze_skin_tone c s f) = Inl e)
    \<or> (\<exists>img d r category undertone dominant_colors confidence skin_tone
           recommended avoid palettes tips response.
         process_image c (body f) = Inr img \<and>
         color_analyzer_analyze_skin_tone c img = Inr d \<and>
         get_color_recommendations c d = Inr r \<and>
         d ''category'' = Some category \<and> d ''undertone'' = Some undertone \<and>
         d ''dominant_colors'' = Some dominant_colors \<and> d ''confidence'' = Some confidence \<and>
         SkinToneAnalysis c category undertone dominant_colors confidence = Inr skin_tone \<and>
         r ''recommended'' = Some recommended \<and> r ''avoid'' = Some avoid \<and>
         r ''palettes'' = Some palettes \<and> r ''tips'' = Some tips \<and>
         ColorRecommendationResponse c skin_tone recommended avoid palettes tips
           = Inr response \<and>
         snd (analyze_skin_tone c s f) = Inr response)"
  proof (cases "snd (analyze_skin_tone c s f)")
    case (Inl e)
    then show ?thesis by blast
  next
    case (Inr response)
    from complete [OF Inr] Inr show ?thesis by blast
  qed
  have missing: "\<exists>e. snd (analyze_skin_tone c s f) = Inl e"
    if steps: "process_image c (body f) = Inr img"
        "color_analyzer_analyze_skin_tone c img = Inr d"
        "get_color_recommendations c d = Inr r"
      and gap: "k \<in> {''category'', ''undertone'', ''dominant_colors'', ''confidence''}
                  \<and> d k = None
          \<or> k \<in> {''recommended'', ''avoid'', ''palettes'', ''tips''} \<and> r k = None"
    for img d r k
  proof (cases "snd (analyze_skin_tone c s f)")
    case (Inl e)
    then show ?thesis by blast
  next
    case (Inr response)
    from complete [OF Inr] steps have
      "d ''category'' \<noteq> None \<and> d ''undertone'' \<noteq> None \<and> d ''dominant_colors'' \<noteq> None
       \<and> d ''confidence'' \<noteq> None \<and> r ''recommended'' \<noteq> None \<and> r ''avoid'' \<noteq> None
       \<and> r ''palettes'' \<noteq> None \<and> r ''tips'' \<noteq> None"
      by auto
    with gap show ?thesis by auto
  qed
  from dichotomy missing show ?thesis by blast
qed

theorem complete_response_or_failure_witness:
  "process_image collaborators_without_tips (body png_upload) = Inr [137, 80, 78, 71]
   \<and> color_analyzer_analyze_skin_tone collaborators_without_tips [137, 80, 78, 71]
       = Inr sample_skin_tone_data
   \<and> get_color_recommendations collaborators_without_tips sample_skin_tone_data
       = Inr recommendations_without_tips
   \<and> ''tips'' \<in> {''recommended'', ''avoid'', ''palettes'', ''tips''}
   \<and> recommendations_without_tips ''tips'' = None
   \<and> (\<exists>e. snd (analyze_skin_tone collaborators_without_tips Settings_default png_upload)
          = Inl e)
   \<and> snd (analyze_skin_tone collaborators_without_tips Settings_default png_upload)
       = Inl (HTTPException 500 (Error_processing ''tips''))"
proof -
  have steps: "process_image collaborators_without_tips (body png_upload)
      = Inr [137, 80, 78, 71]"
    "color_analyzer_analyze_skin_tone collaborators_without_tips [137, 80, 78, 71]
      = Inr sample_skin_tone_data"
    "get_color_recommendations collaborators_without_tips sample_skin_tone_data
      = Inr recommendations_without_tips"
    by (simp_all add: collaborators_without_tips_def sample_collaborators_def png_upload_def)
  have gap: "recommendations_without_tips ''tips'' = None"
    by (simp add: recommendations_without_tips_def)
  have run: "snd (analyze_skin_tone collaborators_without_tips Settings_default png_upload)
       = Inl (HTTPException 500 (Error_processing ''tips''))"
    by (simp add: analyze_skin_tone_def try_body_def collaborators_without_tips_def
          sample_collaborators_def Settings_default_def png_upload_def create_response_def
          and_then_def getitem_def raised_def sample_skin_tone_data_def
          recommendations_without_tips_def Let_def)
  from complete_response_or_failure
    [of collaborators_without_tips Settings_default png_upload]
    steps gap
  have "\<exists>e. snd (analyze_skin_tone collaborators_without_tips Settings_default png_upload)
          = Inl e"
    by blast
  with steps gap run show ?thesis by simp
qed


section \<open>The type check comes before the read\<close>

text \<open>
  Claim C10. The content-type check comes strictly before the size check: for every upload
  whose content type is not among the allowed ones, the handler's outcome is the same
  whatever the body is, the exception raised is the one for the invalid file type, and the
  events are the first log line and the error log line only, so the file is never read.
\<close>

theorem type_check_precedes_read:
  assumes "content_type f \<notin> set (map Some (allowed_image_types s))"
  shows "analyze_skin_tone c s (f\<lparr>body := b\<rparr>) = analyze_skin_tone c s f
     \<and> snd (try_body c s f)
       = Inl (HTTPException 400 (Invalid_file_type (allowed_image_types s)))
     \<and> analyze_skin_tone c s f
       = ([Log_info (Processing_image_upload (filename f)),
           Log_error (Error_processing_image (str_exn c
             (HTTPException 400 (Invalid_file_type (allowed_image_types s)))))],
          Inl (HTTPException 500 (Error_processing (str_exn c
             (HTTPException 400 (Invalid_file_type (allowed_image_types s)))))))
     \<and> File_read \<notin> set (fst (analyze_skin_tone c s f))"
proof -
  from assms have "content_type (f\<lparr>body := b\<rparr>) \<notin> set (map Some (allowed_image_types s))"
    by simp
  from try_body_invalid_type [OF this, of c] try_body_invalid_type [OF assms, of c]
  show ?thesis
    by (simp add: analyze_skin_tone_def)
qed

theorem type_check_precedes_read_witness:
  "content_type big_text_upload \<notin> set (map Some (allowed_image_types Settings_default))
   \<and> analyze_skin_tone sample_collaborators Settings_default (big_text_upload\<lparr>body := []\<rparr>)
       = analyze_skin_tone sample_collaborators Settings_default big_text_upload
   \<and> analyze_skin_tone sample_collaborators Settings_default big_text_upload
       = ([Log_info (Processing_image_upload (Some ''big.txt'')),
           Log_error (Error_processing_image ''Invalid file type'')],
          Inl (HTTPException 500 (Error_processing ''Invalid file type'')))
   \<and> File_read
       \<notin> set (fst (analyze_skin_tone sample_collaborators Settings_default big_text_upload))"
proof -
  have other: "content_type big_text_upload
      \<notin> set (map Some (allowed_image_types Settings_default))"
    by (simp add: big_text_upload_def Settings_default_def)
  have str: "str_exn sample_collaborators
      (HTTPException 400 (Invalid_file_type (allowed_image_types Settings_default)))
      = ''Invalid file type''"
    by (simp add: sample_collaborators_def)
  have name: "filename big_text_upload = Some ''big.txt''"
    by (simp add: big_text_upload_def)
  from type_check_precedes_read [OF other, of sample_collaborators "[]"] other
  show ?thesis
    by (simp add: str name)
qed

end
